theory Spec2Isabelle
  imports Main "HOL-Library.Sublist" "HOL-Library.Word"
begin

section \<open>Text: characters, substrings, lines\<close>

text \<open>
  Python strings are modelled as \<^typ>\<open>string\<close>. The character tables below are those of
  Python for ASCII text (code points below 128): the digits of \<^verbatim>\<open>\d\<close>, the white space of
  \<^verbatim>\<open>\s\<close> and \<^verbatim>\<open>str.strip\<close> (tab to carriage return, the four separators
  28 to 31, and the blank), the word characters of \<^verbatim>\<open>\w\<close>, and \<^verbatim>\<open>str.lower\<close>.
  Python's \<^verbatim>\<open>t in s\<close> on strings is \<^const>\<open>sublist\<close>.
\<close>

definition cp :: "char \<Rightarrow> int" where
  "cp c = of_char c"

definition is_digit :: "int \<Rightarrow> bool" where
  "is_digit n = (48 \<le> n \<and> n \<le> 57)"

definition is_upper :: "int \<Rightarrow> bool" where
  "is_upper n = (65 \<le> n \<and> n \<le> 90)"

definition is_lower :: "int \<Rightarrow> bool" where
  "is_lower n = (97 \<le> n \<and> n \<le> 122)"

definition is_space :: "int \<Rightarrow> bool" where
  "is_space n = ((9 \<le> n \<and> n \<le> 13) \<or> (28 \<le> n \<and> n \<le> 32))"

definition is_word :: "int \<Rightarrow> bool" where
  "is_word n = (is_digit n \<or> is_upper n \<or> is_lower n \<or> n = 95)"

definition lower_cp :: "int \<Rightarrow> int" where
  "lower_cp n = (if is_upper n then n + 32 else n)"

definition upper_cp :: "int \<Rightarrow> int" where
  "upper_cp n = (if is_lower n then n - 32 else n)"

definition lower :: "string \<Rightarrow> string" where
  "lower s = map (\<lambda>c. char_of (lower_cp (cp c))) s"

definition strip :: "string \<Rightarrow> string" where
  "strip s = rev (dropWhile (\<lambda>c. is_space (cp c)) (rev (dropWhile (\<lambda>c. is_space (cp c)) s)))"

text \<open>
  \<^verbatim>\<open>str.splitlines\<close>: a line ends at a line feed, a carriage return (with the line feed
  that follows it, if any), a vertical tab, a form feed or one of the separators 28 to 30;
  the text after the last boundary is a line only when it is not empty.
\<close>

definition is_linebreak :: "char \<Rightarrow> bool" where
  "is_linebreak c = ((10 \<le> cp c \<and> cp c \<le> 13) \<or> (28 \<le> cp c \<and> cp c \<le> 30))"

fun splitlines_from :: "string \<Rightarrow> string \<Rightarrow> string list" where
  "splitlines_from cur [] = (if cur = [] then [] else [cur])"
| "splitlines_from cur [c] = (if is_linebreak c then [cur] else [cur @ [c]])"
| "splitlines_from cur (c # d # cs) =
     (if cp c = 13 \<and> cp d = 10 then cur # splitlines_from [] cs
      else if is_linebreak c then cur # splitlines_from [] (d # cs)
      else splitlines_from (cur @ [c]) (d # cs))"

definition splitlines :: "string \<Rightarrow> string list" where
  "splitlines s = splitlines_from [] s"

section \<open>The regular expressions of \<^verbatim>\<open>detect_utils.PATTERNS\<close>\<close>

text \<open>
  The patterns use literals, character classes, sequence, alternation, greedy bounded and
  unbounded repetition, the word boundary \<^verbatim>\<open>\b\<close>, and negative look-behind and
  look-ahead of one character class. A pattern is written over characters and compiled
  (\<^verbatim>\<open>re.compile\<close>) to one over code points, which the matcher runs on the code points of
  the text.

  A match is searched by backtracking: \<open>ends\<close> lists the cursors at which a pattern can
  stop when started at a cursor, in the order in which the backtracking matcher of
  \<^verbatim>\<open>re\<close> tries them, so that the head of the list is the match it returns. A cursor is
  the code point before the position (if any) and the code points from the position on.
  The flag is \<^verbatim>\<open>re.I\<close>.
\<close>

datatype 'a citem = Range 'a 'a | One 'a | Digit | Space | Wordc

datatype 'a re =
    Eps
  | Lit 'a
  | In "'a citem list"
  | NotIn "'a citem list"
  | Cat "'a re" "'a re"
  | Alt "'a re" "'a re"
  | Rep nat "nat option" "'a re"
  | WordB
  | NotBehind "'a citem list"
  | NotAhead "'a citem list"

definition compile :: "char re \<Rightarrow> int re" where
  "compile r = map_re cp r"

type_synonym cursor = "int option \<times> int list"

fun item_match :: "int citem \<Rightarrow> int \<Rightarrow> bool" where
  "item_match (Range a b) c = (a \<le> c \<and> c \<le> b)"
| "item_match (One a) c = (c = a)"
| "item_match Digit c = is_digit c"
| "item_match Space c = is_space c"
| "item_match Wordc c = is_word c"

definition class_match :: "bool \<Rightarrow> int citem list \<Rightarrow> int \<Rightarrow> bool" where
  "class_match ic items c =
     (if ic then list_ex (\<lambda>i. item_match i (lower_cp c) \<or> item_match i (upper_cp c)) items
      else list_ex (\<lambda>i. item_match i c) items)"

definition lit_match :: "bool \<Rightarrow> int \<Rightarrow> int \<Rightarrow> bool" where
  "lit_match ic a c = (if ic then lower_cp a = lower_cp c else a = c)"

definition word_before :: "cursor \<Rightarrow> bool" where
  "word_before cur = (case fst cur of None \<Rightarrow> False | Some c \<Rightarrow> is_word c)"

definition word_after :: "cursor \<Rightarrow> bool" where
  "word_after cur = (case snd cur of [] \<Rightarrow> False | c # _ \<Rightarrow> is_word c)"

definition one_char :: "(int \<Rightarrow> bool) \<Rightarrow> cursor \<Rightarrow> cursor list" where
  "one_char p cur = (case snd cur of [] \<Rightarrow> [] | c # cs \<Rightarrow> if p c then [(Some c, cs)] else [])"

text \<open>
  Greedy repetition: \<open>rep step lo n cur\<close> runs the body at most \<open>n\<close> more times and at
  least \<open>lo\<close> more times, longer runs first. An unbounded repetition gets as many runs as
  characters are left, which is all it can use when each run of its body reads a character;
  every repeated body of the patterns below does.
\<close>

primrec rep :: "(cursor \<Rightarrow> cursor list) \<Rightarrow> nat \<Rightarrow> nat \<Rightarrow> cursor \<Rightarrow> cursor list" where
  "rep step lo 0 cur = (if lo = 0 then [cur] else [])"
| "rep step lo (Suc n) cur =
     concat (map (rep step (lo - 1) n) (step cur)) @ (if lo = 0 then [cur] else [])"

primrec ends :: "bool \<Rightarrow> int re \<Rightarrow> cursor \<Rightarrow> cursor list" where
  "ends ic Eps cur = [cur]"
| "ends ic (Lit a) cur = one_char (lit_match ic a) cur"
| "ends ic (In items) cur = one_char (class_match ic items) cur"
| "ends ic (NotIn items) cur = one_char (\<lambda>c. \<not> class_match ic items c) cur"
| "ends ic (Cat r1 r2) cur = concat (map (ends ic r2) (ends ic r1 cur))"
| "ends ic (Alt r1 r2) cur = ends ic r1 cur @ ends ic r2 cur"
| "ends ic (Rep lo hi r) cur =
     rep (ends ic r) lo (case hi of Some h \<Rightarrow> h | None \<Rightarrow> lo + length (snd cur)) cur"
| "ends ic WordB cur = (if word_before cur \<noteq> word_after cur then [cur] else [])"
| "ends ic (NotBehind items) cur =
     (case fst cur of None \<Rightarrow> [cur] | Some c \<Rightarrow> if class_match ic items c then [] else [cur])"
| "ends ic (NotAhead items) cur =
     (case snd cur of [] \<Rightarrow> [cur] | c # _ \<Rightarrow> if class_match ic items c then [] else [cur])"

text \<open>
  \<^verbatim>\<open>pat.finditer(text)\<close>: the spans of the matches from left to right; the search for the
  next match starts where the last one ended. \<open>skip\<close> counts the characters of the last
  match still to be passed over. (A match of the empty string is reported and the scan
  moves on by one character; no pattern below matches the empty string.) The matched text
  \<^verbatim>\<open>m.group(0)\<close> is the slice of the text at the span.
\<close>

fun scan :: "bool \<Rightarrow> int re \<Rightarrow> nat \<Rightarrow> nat \<Rightarrow> int option \<Rightarrow> int list \<Rightarrow> (nat \<times> nat) list" where
  "scan ic r skip pos prev [] =
     (if skip = 0 then (case ends ic r (prev, []) of [] \<Rightarrow> [] | e # _ \<Rightarrow> [(pos, pos)]) else [])"
| "scan ic r skip pos prev (c # cs) =
     (if 0 < skip then scan ic r (skip - 1) (pos + 1) (Some c) cs
      else (case ends ic r (prev, c # cs) of
              [] \<Rightarrow> scan ic r 0 (pos + 1) (Some c) cs
            | e # _ \<Rightarrow>
                (let n = length (c # cs) - length (snd e)
                 in (pos, pos + n) # scan ic r (n - 1) (pos + 1) (Some c) cs)))"

definition finditer :: "bool \<Rightarrow> char re \<Rightarrow> string \<Rightarrow> (nat \<times> nat \<times> string) list" where
  "finditer ic r s =
     map (\<lambda>(a, b). (a, b, take (b - a) (drop a s))) (scan ic (compile r) 0 0 None (map cp s))"

text \<open>\<^verbatim>\<open>re.search(pat, line)\<close> as a truth value.\<close>

definition search :: "bool \<Rightarrow> char re \<Rightarrow> string \<Rightarrow> bool" where
  "search ic r s = (finditer ic r s \<noteq> [])"

subsection \<open>Pattern syntax\<close>

definition seq :: "char re list \<Rightarrow> char re" where
  "seq rs = foldr Cat rs Eps"

definition str :: "string \<Rightarrow> char re" where
  "str s = seq (map Lit s)"

fun alts :: "char re list \<Rightarrow> char re" where
  "alts [] = Eps"
| "alts [r] = r"
| "alts (r # rs) = Alt r (alts rs)"

definition opt :: "char re \<Rightarrow> char re" where
  "opt r = Rep 0 (Some 1) r"

definition star :: "char re \<Rightarrow> char re" where
  "star r = Rep 0 None r"

definition plus :: "char re \<Rightarrow> char re" where
  "plus r = Rep 1 None r"

definition exactly :: "nat \<Rightarrow> char re \<Rightarrow> char re" where
  "exactly n r = Rep n (Some n) r"

definition between :: "nat \<Rightarrow> nat \<Rightarrow> char re \<Rightarrow> char re" where
  "between m n r = Rep m (Some n) r"

definition at_least :: "nat \<Rightarrow> char re \<Rightarrow> char re" where
  "at_least m r = Rep m None r"

definition dig :: "char re" where
  "dig = In [Digit]"

definition sp :: "char re" where
  "sp = In [Space]"

definition dash_or_space :: "char re" where
  "dash_or_space = In [One CHR ''-'', Space]"

definition AZ :: "char citem" where
  "AZ = Range CHR ''A'' CHR ''Z''"

definition az :: "char citem" where
  "az = Range CHR ''a'' CHR ''z''"

definition d09 :: "char citem" where
  "d09 = Range CHR ''0'' CHR ''9''"

subsection \<open>The patterns, in the order of the dictionary\<close>

definition pat_EMAIL :: "char re" where
  "pat_EMAIL = seq
     [WordB,
      plus (In [az, AZ, d09, One CHR ''.'', One CHR ''_'', One CHR ''%'', One CHR ''+'', One CHR ''-'']),
      Lit CHR ''@'',
      plus (In [az, AZ, d09, One CHR ''.'', One CHR ''-'']),
      Lit CHR ''.'',
      at_least 2 (In [AZ, az]),
      WordB]"

definition pat_PHONE :: "char re" where
  "pat_PHONE = seq
     [NotBehind [Digit],
      opt (seq [opt (Lit CHR ''+''), between 1 3 dig, opt dash_or_space]),
      exactly 1 (seq [opt (Lit CHR ''(''), exactly 3 dig, opt (Lit CHR '')''), opt dash_or_space]),
      exactly 3 dig, opt dash_or_space, exactly 4 dig,
      NotAhead [Digit]]"

definition pat_AADHAAR :: "char re" where
  "pat_AADHAAR = seq
     [NotBehind [Digit],
      seq [exactly 4 dig, opt dash_or_space, exactly 4 dig, opt dash_or_space, exactly 4 dig],
      NotAhead [Digit]]"

definition pat_PAN :: "char re" where
  "pat_PAN = seq [WordB, exactly 5 (In [AZ]), exactly 4 (In [d09]), In [AZ], WordB]"

definition pat_GSTIN :: "char re" where
  "pat_GSTIN = seq
     [WordB, exactly 2 (In [d09]), exactly 5 (In [AZ]), exactly 4 (In [d09]), In [AZ],
      In [Range CHR ''1'' CHR ''9'', AZ], Lit CHR ''Z'', In [d09, AZ], WordB]"

definition pat_IFSC :: "char re" where
  "pat_IFSC = seq [WordB, exactly 4 (In [AZ]), Lit CHR ''0'', exactly 6 (In [AZ, d09]), WordB]"

definition pat_SSN :: "char re" where
  "pat_SSN = seq
     [WordB, exactly 3 dig, Lit CHR ''-'', exactly 2 dig, Lit CHR ''-'', exactly 4 dig, WordB]"

definition pat_NPI :: "char re" where
  "pat_NPI = seq [WordB, exactly 10 dig, WordB]"

definition pat_PASSPORT :: "char re" where
  "pat_PASSPORT = seq
     [WordB,
      In [Range CHR ''A'' CHR ''P'', Range CHR ''R'' CHR ''W'', One CHR ''Y'',
          Range CHR ''a'' CHR ''p'', Range CHR ''r'' CHR ''w'', One CHR ''y''],
      between 7 8 (In [d09]),
      WordB]"

definition pat_DL_GENERIC :: "char re" where
  "pat_DL_GENERIC = seq [WordB, between 6 15 (In [AZ, d09]), WordB]"

definition pat_CREDIT_CARD :: "char re" where
  "pat_CREDIT_CARD = seq
     [exactly 3 (seq [exactly 4 dig, opt (In [One CHR ''-'', One CHR '' ''])]), exactly 4 dig]"

definition pat_CVV :: "char re" where
  "pat_CVV = seq [NotBehind [Digit], exactly 3 dig, NotAhead [Digit]]"

definition pat_BANK_ACC :: "char re" where
  "pat_BANK_ACC = seq [NotBehind [Digit], between 9 18 dig, NotAhead [Digit]]"

definition century :: "char re" where
  "century = alts [str ''19'', str ''20'']"

definition pat_DOB :: "char re" where
  "pat_DOB = seq
     [WordB,
      alts [str ''DOB'', str ''Date of Birth'', str ''Birth Date''],
      star sp, opt (In [One CHR '':'', One CHR ''-'']), star sp,
      alts
        [seq [between 1 2 dig, In [One CHR ''/'', One CHR ''-''], between 1 2 dig,
              In [One CHR ''/'', One CHR ''-''], century, exactly 2 dig],
         seq [between 3 9 (In [AZ, az]), plus sp, between 1 2 dig, Lit CHR '','', plus sp,
              century, exactly 2 dig]],
      WordB]"

definition pat_ICD10 :: "char re" where
  "pat_ICD10 = seq
     [WordB,
      In [Range CHR ''A'' CHR ''T'', Range CHR ''V'' CHR ''Z''],
      In [d09],
      In [d09, One CHR ''A'', One CHR ''B''],
      opt (seq [Lit CHR ''.'',
                between 1 4 (In [d09, Range CHR ''A'' CHR ''T'', Range CHR ''V'' CHR ''Z''])]),
      WordB]"

definition octet :: "char re" where
  "octet = alts
     [seq [str ''25'', In [Range CHR ''0'' CHR ''5'']],
      seq [Lit CHR ''2'', In [Range CHR ''0'' CHR ''4''], dig],
      seq [opt (In [One CHR ''0'', One CHR ''1'']), opt dig, dig]]"

definition pat_IP :: "char re" where
  "pat_IP = seq [WordB, exactly 3 (seq [octet, Lit CHR ''.'']), octet, WordB]"

definition hexdigit :: "char re" where
  "hexdigit = In [d09, Range CHR ''A'' CHR ''F'', Range CHR ''a'' CHR ''f'']"

definition pat_MAC :: "char re" where
  "pat_MAC = seq
     [WordB,
      exactly 5 (seq [exactly 2 hexdigit, In [One CHR '':'', One CHR ''-'']]),
      exactly 2 hexdigit,
      WordB]"

definition pat_URL :: "char re" where
  "pat_URL = seq [str ''http'', opt (Lit CHR ''s''), str ''://'', plus (NotIn [Space])]"

definition pat_INSURANCE_ID :: "char re" where
  "pat_INSURANCE_ID = seq
     [WordB,
      alts
        [seq [str ''Member'', star sp, str ''ID''],
         seq [str ''Policy'', star sp, str ''No'', opt (Lit CHR ''.'')],
         seq [str ''Subscriber'', star sp, str ''ID''],
         seq [str ''Payer'', star sp, str ''ID''],
         seq [str ''Group'', star sp, str ''No'', opt (Lit CHR ''.'')]],
      star sp, opt (In [One CHR '':'', One CHR ''-'']), star sp,
      between 5 20 (In [AZ, d09, One CHR ''-'']),
      WordB]"

text \<open>Label, \<^verbatim>\<open>re.I\<close> flag and pattern.\<close>

definition PATTERNS :: "(string \<times> bool \<times> char re) list" where
  "PATTERNS =
     [(''EMAIL'', False, pat_EMAIL),
      (''PHONE'', False, pat_PHONE),
      (''AADHAAR'', False, pat_AADHAAR),
      (''PAN'', False, pat_PAN),
      (''GSTIN'', False, pat_GSTIN),
      (''IFSC'', False, pat_IFSC),
      (''SSN'', False, pat_SSN),
      (''NPI'', False, pat_NPI),
      (''PASSPORT'', False, pat_PASSPORT),
      (''DL_GENERIC'', False, pat_DL_GENERIC),
      (''CREDIT_CARD'', False, pat_CREDIT_CARD),
      (''CVV'', False, pat_CVV),
      (''BANK_ACC'', False, pat_BANK_ACC),
      (''DOB'', True, pat_DOB),
      (''ICD10'', False, pat_ICD10),
      (''IP'', False, pat_IP),
      (''MAC'', False, pat_MAC),
      (''URL'', False, pat_URL),
      (''INSURANCE_ID'', True, pat_INSURANCE_ID)]"

definition ADDRESS_HINT_WORDS :: "string list" where
  "ADDRESS_HINT_WORDS =
     [''address'', ''addr.'', ''street'', ''st.'', ''road'', ''rd.'', ''lane'', ''ln.'',
      ''avenue'', ''ave.'', ''boulevard'', ''blvd'', ''city'', ''state'', ''zip'', ''pincode'',
      ''pin'']"

text \<open>The street-address pattern of the address heuristic in \<^verbatim>\<open>regex_entities\<close>.\<close>

definition pat_street :: "char re" where
  "pat_street = seq
     [between 1 5 dig, plus sp,
      plus (In [AZ, az, d09, One CHR ''.'', One CHR ''-'', One CHR '' '']),
      Lit CHR '','', star sp,
      plus (In [AZ, az, One CHR ''.'', One CHR ''-'', One CHR '' '']),
      plus (In [One CHR '','', One CHR '' '']),
      exactly 2 (In [Wordc]), plus sp, between 4 6 dig]"

section \<open>Findings\<close>

text \<open>
  A finding before alignment is a dictionary with the keys \<^verbatim>\<open>label\<close> and
  \<^verbatim>\<open>matched\<close>, and \<^verbatim>\<open>span\<close> when it comes from a pattern. An OCR line has a text and
  a box \<^verbatim>\<open>[x, y, w, h]\<close> (its confidence is read by no function here). A detection is a
  dictionary whose keys \<^verbatim>\<open>label\<close>, \<^verbatim>\<open>type\<close>, \<^verbatim>\<open>box\<close> and \<^verbatim>\<open>matched\<close> may each be
  absent: the aligner writes \<^verbatim>\<open>label\<close>, \<^verbatim>\<open>box\<close> and \<^verbatim>\<open>matched\<close>, the visual detectors
  \<^verbatim>\<open>type\<close> and \<^verbatim>\<open>box\<close>.
\<close>

record text_finding =
  tf_label :: string
  tf_span :: "(nat \<times> nat) option"
  tf_matched :: string

record ocr_line =
  line_text :: string
  line_box :: "int list"

record detection =
  det_label :: "string option"
  det_type :: "string option"
  det_box :: "int list option"
  det_matched :: "string option"

subsection \<open>\<^verbatim>\<open>regex_entities\<close>\<close>

definition pattern_findings :: "string \<Rightarrow> string \<times> bool \<times> char re \<Rightarrow> text_finding list" where
  "pattern_findings txt p =
     (case p of (lab, ic, r) \<Rightarrow>
        map (\<lambda>(s, e, g). \<lparr>tf_label = lab, tf_span = Some (s, e), tf_matched = g\<rparr>)
          (finditer ic r txt))"

definition address_line :: "string \<Rightarrow> bool" where
  "address_line ln =
     ((list_ex (\<lambda>k. sublist k (lower ln)) ADDRESS_HINT_WORDS \<or> search False pat_street ln)
      \<and> 6 < length (strip ln))"

definition address_findings :: "string \<Rightarrow> text_finding list" where
  "address_findings txt =
     map (\<lambda>ln. \<lparr>tf_label = ''ADDRESS'', tf_span = Some (0, 0), tf_matched = take 200 (strip ln)\<rparr>)
       (filter address_line (splitlines txt))"

definition regex_entities :: "string \<Rightarrow> text_finding list" where
  "regex_entities txt = concat (map (pattern_findings txt) PATTERNS) @ address_findings txt"

subsection \<open>\<^verbatim>\<open>align_text_findings_to_boxes\<close>\<close>

text \<open>
  \<^verbatim>\<open>re.sub(r"\W+", "", s.lower())\<close> removes every character that is not a word character
  from the lower-cased string.
\<close>

definition clean :: "string \<Rightarrow> string" where
  "clean s = filter (\<lambda>c. is_word (cp c)) (lower s)"

text \<open>The first loop over the lines: the box of the first line that contains the target.\<close>

fun exact_box :: "string \<Rightarrow> ocr_line list \<Rightarrow> int list option" where
  "exact_box target [] = None"
| "exact_box target (ln # lns) =
     (if target \<noteq> [] \<and> sublist target (line_text ln) then Some (line_box ln)
      else exact_box target lns)"

text \<open>The second loop, entered when the first placed nothing.\<close>

fun clean_box :: "string \<Rightarrow> ocr_line list \<Rightarrow> int list option" where
  "clean_box t_clean [] = None"
| "clean_box t_clean (ln # lns) =
     (let l_clean = clean (line_text ln)
      in if t_clean \<noteq> [] \<and> sublist t_clean l_clean \<and> 4 \<le> length t_clean then Some (line_box ln)
         else clean_box t_clean lns)"

definition sentinel :: "int list" where
  "sentinel = [0, 0, 0, 0]"

definition place :: "text_finding \<Rightarrow> ocr_line list \<Rightarrow> detection" where
  "place tf lns =
     (let target = tf_matched tf;
          b = (case exact_box target lns of
                 Some b \<Rightarrow> b
               | None \<Rightarrow>
                   (case clean_box (clean target) lns of
                      Some b \<Rightarrow> b
                    | None \<Rightarrow> sentinel))
      in \<lparr>det_label = Some (tf_label tf), det_type = None, det_box = Some b,
          det_matched = Some target\<rparr>)"

fun align_loop :: "text_finding list \<Rightarrow> ocr_line list \<Rightarrow> detection list \<Rightarrow> detection list" where
  "align_loop [] lns boxes = boxes"
| "align_loop (tf # tfs) lns boxes = align_loop tfs lns (boxes @ [place tf lns])"

definition align_text_findings_to_boxes :: "text_finding list \<Rightarrow> ocr_line list \<Rightarrow> detection list" where
  "align_text_findings_to_boxes text_findings ocr_lines = align_loop text_findings ocr_lines []"

section \<open>Images and the Redaction Applier\<close>

text \<open>
  An image is the array of its rows, each a list of pixels of three 8-bit channels (a numpy
  array of shape \<^verbatim>\<open>(H, W, 3)\<close>; the width of an image without rows is taken as 0).
  \<^verbatim>\<open>cv_to_pil\<close> and \<^verbatim>\<open>pil_to_cv\<close> swap the first and the third channel.
\<close>

type_synonym pixel = "8 word \<times> 8 word \<times> 8 word"

type_synonym image = "pixel list list"

definition img_W :: "image \<Rightarrow> nat" where
  "img_W img = (case img of [] \<Rightarrow> 0 | r # _ \<Rightarrow> length r)"

definition swap_channels :: "pixel \<Rightarrow> pixel" where
  "swap_channels p = (case p of (a, b, c) \<Rightarrow> (c, b, a))"

definition cv_to_pil :: "image \<Rightarrow> image" where
  "cv_to_pil img = map (map swap_channels) img"

definition pil_to_cv :: "image \<Rightarrow> image" where
  "pil_to_cv img = map (map swap_channels) img"

definition imap :: "(nat \<Rightarrow> 'a \<Rightarrow> 'b) \<Rightarrow> 'a list \<Rightarrow> 'b list" where
  "imap f xs = map (\<lambda>(i, x). f i x) (enumerate 0 xs)"

text \<open>Writing the pixels at the positions selected by \<open>sel\<close>, all others kept.\<close>

definition write_pixels :: "(nat \<Rightarrow> nat \<Rightarrow> bool) \<Rightarrow> (nat \<Rightarrow> nat \<Rightarrow> pixel) \<Rightarrow> image \<Rightarrow> image" where
  "write_pixels sel v img = imap (\<lambda>y row. imap (\<lambda>x p. if sel y x then v y x else p) row) img"

text \<open>
  \<^verbatim>\<open>cv2.rectangle(img, pt1, pt2, color, thickness=-1)\<close> fills the rectangle whose opposite
  corners are the two points, both corners included and in either order, clipped to the
  image.
\<close>

definition in_closed_rect :: "int \<Rightarrow> int \<Rightarrow> int \<Rightarrow> int \<Rightarrow> nat \<Rightarrow> nat \<Rightarrow> bool" where
  "in_closed_rect x0 y0 x1 y1 y x =
     (min y0 y1 \<le> int y \<and> int y \<le> max y0 y1 \<and> min x0 x1 \<le> int x \<and> int x \<le> max x0 x1)"

definition cv2_rectangle :: "image \<Rightarrow> int \<times> int \<Rightarrow> int \<times> int \<Rightarrow> pixel \<Rightarrow> image" where
  "cv2_rectangle img pt1 pt2 color =
     write_pixels (in_closed_rect (fst pt1) (snd pt1) (fst pt2) (snd pt2)) (\<lambda>y x. color) img"

text \<open>
  A numpy slice \<^verbatim>\<open>a:b\<close> of an axis of length \<open>n\<close>: a negative bound counts from the end
  of the axis, and both bounds are then cut to the axis. The slice holds the indices from
  the first bound up to, not including, the second.
\<close>

definition slice_bound :: "nat \<Rightarrow> int \<Rightarrow> nat" where
  "slice_bound n v = (if v < 0 then nat (max 0 (v + int n)) else min (nat v) n)"

definition in_slice :: "nat \<Rightarrow> int \<Rightarrow> int \<Rightarrow> nat \<Rightarrow> bool" where
  "in_slice n a b i = (slice_bound n a \<le> i \<and> i < slice_bound n b)"

definition slice :: "int \<Rightarrow> int \<Rightarrow> 'a list \<Rightarrow> 'a list" where
  "slice a b xs =
     take (slice_bound (length xs) b - slice_bound (length xs) a) (drop (slice_bound (length xs) a) xs)"

text \<open>\<^verbatim>\<open>out[y0:y1, x0:x1]\<close> of an image of width \<open>W\<close>, and the number of its entries.\<close>

definition region :: "image \<Rightarrow> int \<Rightarrow> int \<Rightarrow> int \<Rightarrow> int \<Rightarrow> image" where
  "region out y0 y1 x0 x1 = map (slice x0 x1) (slice y0 y1 out)"

definition region_size :: "nat \<Rightarrow> nat \<Rightarrow> int \<Rightarrow> int \<Rightarrow> int \<Rightarrow> int \<Rightarrow> nat" where
  "region_size H W y0 y1 x0 x1 =
     (slice_bound H y1 - slice_bound H y0) * (slice_bound W x1 - slice_bound W x0) * 3"

text \<open>
  \<^verbatim>\<open>int(0.03 * w)\<close>: the product rounded towards zero. For a box side below \<open>2^53\<close> in
  absolute value the double product truncates to the same integer as the exact
  \<open>3 w / 100\<close>.
\<close>

definition pad3 :: "int \<Rightarrow> int" where
  "pad3 w = (if 0 \<le> w then (3 * w) div 100 else - ((3 * (- w)) div 100))"

text \<open>The corners \<open>(x0, y0, x1, y1)\<close> computed for a box \<open>x, y, w, h\<close>.\<close>

definition expand_clamp :: "nat \<Rightarrow> nat \<Rightarrow> int \<Rightarrow> int \<Rightarrow> int \<Rightarrow> int \<Rightarrow> int \<times> int \<times> int \<times> int" where
  "expand_clamp H W x y w h =
     (max 0 (x - pad3 w), max 0 (y - pad3 h), min (int W) (x + w + pad3 w), min (int H) (y + h + pad3 h))"

definition kernel_size :: "int \<Rightarrow> int \<Rightarrow> int" where
  "kernel_size x0 x1 = max 15 ((max 1 ((x1 - x0) div 10) div 2) * 2 + 1)"

text \<open>
  \<^verbatim>\<open>cv2.GaussianBlur(roi, (k, k), 0)\<close> is a parameter \<open>G\<close> of the model: \<open>G k roi i j\<close> is
  the pixel in row \<open>i\<close> and column \<open>j\<close> of the blurred region, which has the shape of
  \<open>roi\<close>.
\<close>

type_synonym blur = "int \<Rightarrow> image \<Rightarrow> nat \<Rightarrow> nat \<Rightarrow> pixel"

definition blur_region :: "blur \<Rightarrow> nat \<Rightarrow> nat \<Rightarrow> int \<Rightarrow> int \<Rightarrow> int \<Rightarrow> int \<Rightarrow> image \<Rightarrow> image" where
  "blur_region G H W x0 y0 x1 y1 out =
     (let roi = region out y0 y1 x0 x1;
          k = kernel_size x0 x1
      in write_pixels (\<lambda>y x. in_slice H y0 y1 y \<and> in_slice W x0 x1 x)
           (\<lambda>y x. G k roi (y - slice_bound H y0) (x - slice_bound W x0)) out)"

datatype error = IndexError | ValueError

definition black :: pixel where
  "black = (0, 0, 0)"

text \<open>
  One turn of the loop of \<^verbatim>\<open>apply_redactions_cv\<close>. Reading \<^verbatim>\<open>box[2]\<close> or \<^verbatim>\<open>box[3]\<close>
  of a shorter list raises \<^verbatim>\<open>IndexError\<close>, unpacking a list that has not four entries
  \<^verbatim>\<open>ValueError\<close>.
\<close>

definition redact_one :: "blur \<Rightarrow> string \<Rightarrow> nat \<Rightarrow> nat \<Rightarrow> detection \<Rightarrow> image \<Rightarrow> error + image" where
  "redact_one G mode H W det out =
     (let box = (case det_box det of None \<Rightarrow> [0, 0, 0, 0] | Some b \<Rightarrow> b)
      in if box = [] then Inr out
         else if length box < 3 then Inl IndexError
         else if box ! 2 = 0 then Inr out
         else if length box < 4 then Inl IndexError
         else if box ! 3 = 0 then Inr out
         else if length box \<noteq> 4 then Inl ValueError
         else (case expand_clamp H W (box ! 0) (box ! 1) (box ! 2) (box ! 3) of
                 (x0, y0, x1, y1) \<Rightarrow>
                   if mode = ''black'' then Inr (cv2_rectangle out (x0, y0) (x1, y1) black)
                   else if region_size H W y0 y1 x0 x1 = 0 then Inr out
                   else Inr (blur_region G H W x0 y0 x1 y1 out)))"

fun redact_loop :: "blur \<Rightarrow> string \<Rightarrow> nat \<Rightarrow> nat \<Rightarrow> detection list \<Rightarrow> image \<Rightarrow> error + image" where
  "redact_loop G mode H W [] out = Inr out"
| "redact_loop G mode H W (det # dets) out =
     (case redact_one G mode H W det out of
        Inl e \<Rightarrow> Inl e
      | Inr out' \<Rightarrow> redact_loop G mode H W dets out')"

definition apply_redactions_cv :: "blur \<Rightarrow> image \<Rightarrow> detection list \<Rightarrow> string \<Rightarrow> error + image" where
  "apply_redactions_cv G cv_img detections mode =
     (let out = cv_img; H = length out; W = img_W out
      in case redact_loop G mode H W detections out of
           Inl e \<Rightarrow> Inl e
         | Inr out' \<Rightarrow> Inr (cv_to_pil out'))"

section \<open>The page pipeline of \<^verbatim>\<open>app.process_one_pil\<close>\<close>

text \<open>
  The options are the widgets of the page. What the collaborators return for a page is an
  input of the model: the OCR lines, the entities of the language model for the page's text
  (label and text; \<open>None\<close> when the model cannot be loaded), the detections of the face,
  signature and QR-code detectors, the check boxes of the detection table and the clock.
\<close>

datatype radio = Blur | Black

fun radio_value :: "radio \<Rightarrow> string" where
  "radio_value Blur = ''blur''"
| "radio_value Black = ''black''"

record options =
  redact_method :: radio
  enable_ner :: bool
  auto_redact :: bool
  preview_mode :: bool
  enable_faces :: bool
  enable_signatures :: bool

record page_inputs =
  pil :: image
  lines :: "ocr_line list"
  nlp_ents :: "(string \<times> string) list option"
  faces :: "detection list"
  signatures :: "detection list"
  qr_codes :: "detection list"
  checked :: "nat \<Rightarrow> bool"
  now :: string

text \<open>\<^verbatim>\<open>"\n".join(ls)\<close>\<close>

fun join_lines :: "string list \<Rightarrow> string" where
  "join_lines [] = []"
| "join_lines [l] = l"
| "join_lines (l # ls) = l @ CHR 0x0A # join_lines ls"

definition ner_findings :: "(string \<times> string) list option \<Rightarrow> string \<Rightarrow> ocr_line list \<Rightarrow> bool \<Rightarrow> detection list" where
  "ner_findings model txt ocr_lines enable =
     (case (if enable then model else None) of
        None \<Rightarrow> []
      | Some doc_ents \<Rightarrow>
          if txt = [] then []
          else align_text_findings_to_boxes
                 (map (\<lambda>(l, t). \<lparr>tf_label = l, tf_span = None, tf_matched = t\<rparr>)
                    (filter (\<lambda>(l, t). l \<in> set [''PERSON'', ''GPE'', ''ORG'']) doc_ents))
                 ocr_lines)"

definition merged :: "page_inputs \<Rightarrow> options \<Rightarrow> detection list" where
  "merged inp opts =
     (let full_text = join_lines (map line_text (lines inp));
          text_findings = regex_entities full_text;
          text_boxes = align_text_findings_to_boxes text_findings (lines inp);
          ner_boxes = ner_findings (nlp_ents inp) full_text (lines inp) (enable_ner opts);
          face_boxes = (if enable_faces opts then faces inp else []);
          sig_boxes = (if enable_signatures opts then signatures inp else []);
          qr_boxes = qr_codes inp
      in text_boxes @ ner_boxes @ face_boxes @ sig_boxes @ qr_boxes)"

definition selected_boxes :: "page_inputs \<Rightarrow> options \<Rightarrow> detection list" where
  "selected_boxes inp opts =
     (if auto_redact opts then merged inp opts
      else map snd (filter (\<lambda>(i, det). checked inp i) (enumerate 0 (merged inp opts))))"

text \<open>The log entry: a dictionary, as the list of its keys and values in insertion order.\<close>

datatype log_value = Str string | Dets "detection list"

definition log_entry :: "string \<Rightarrow> detection list \<Rightarrow> detection list \<Rightarrow> string \<Rightarrow> string \<Rightarrow> string \<Rightarrow> (string \<times> log_value) list" where
  "log_entry name dets sel mode ts page_tag =
     [(''file'', Str name),
      (''detections'', Dets dets),
      (''redacted'', Dets sel),
      (''mode'', Str mode),
      (''timestamp'', Str ts),
      (''page'', Str page_tag)]"

definition process_one_pil :: "blur \<Rightarrow> options \<Rightarrow> page_inputs \<Rightarrow> string \<Rightarrow> string \<Rightarrow> error + image \<times> (string \<times> log_value) list" where
  "process_one_pil G opts inp name page_tag =
     (let cv_img = pil_to_cv (pil inp);
          sel = selected_boxes inp opts;
          entry = log_entry name (merged inp opts) sel (radio_value (redact_method opts)) (now inp) page_tag
      in if preview_mode opts then Inr (pil inp, entry)
         else (case apply_redactions_cv G cv_img sel (radio_value (redact_method opts)) of
                 Inl e \<Rightarrow> Inl e
               | Inr redacted_pil \<Rightarrow> Inr (redacted_pil, entry)))"

text \<open>
  The export step of the main script: with the preview option on, the pages kept are the
  originals, and the redaction is applied to each with the \<^verbatim>\<open>redacted\<close> list of its log
  entry.
\<close>

definition export_page :: "blur \<Rightarrow> options \<Rightarrow> page_inputs \<Rightarrow> image \<Rightarrow> error + image" where
  "export_page G opts inp page =
     (if preview_mode opts
      then apply_redactions_cv G (pil_to_cv page) (selected_boxes inp opts) (radio_value (redact_method opts))
      else Inr page)"

section \<open>Notions used in the proofs\<close>

text \<open>
  What the loop of \<^verbatim>\<open>apply_redactions_cv\<close> does with one detection, read off
  \<open>redact_one\<close>: the error it raises, whether it skips the detection at the guard, the
  corners it computes, and the pixels the black fill covers.
\<close>

definition box_error :: "detection \<Rightarrow> error option" where
  "box_error det =
     (let box = (case det_box det of None \<Rightarrow> [0, 0, 0, 0] | Some b \<Rightarrow> b)
      in if box = [] then None
         else if length box < 3 then Some IndexError
         else if box ! 2 = 0 then None
         else if length box < 4 then Some IndexError
         else if box ! 3 = 0 then None
         else if length box \<noteq> 4 then Some ValueError
         else None)"

definition skipped :: "detection \<Rightarrow> bool" where
  "skipped det =
     (let box = (case det_box det of None \<Rightarrow> [0, 0, 0, 0] | Some b \<Rightarrow> b)
      in box = [] \<or> (3 \<le> length box \<and> box ! 2 = 0) \<or> (4 \<le> length box \<and> box ! 3 = 0))"

definition corners :: "nat \<Rightarrow> nat \<Rightarrow> detection \<Rightarrow> int \<times> int \<times> int \<times> int" where
  "corners H W det =
     (let box = (case det_box det of None \<Rightarrow> [0, 0, 0, 0] | Some b \<Rightarrow> b)
      in expand_clamp H W (box ! 0) (box ! 1) (box ! 2) (box ! 3))"

definition covers :: "nat \<Rightarrow> nat \<Rightarrow> detection \<Rightarrow> nat \<Rightarrow> nat \<Rightarrow> bool" where
  "covers H W det y x =
     (\<not> skipped det \<and> (case corners H W det of (x0, y0, x1, y1) \<Rightarrow> in_closed_rect x0 y0 x1 y1 y x))"

fun fill_mask :: "nat \<Rightarrow> nat \<Rightarrow> detection list \<Rightarrow> nat \<Rightarrow> nat \<Rightarrow> bool" where
  "fill_mask H W [] y x = False"
| "fill_mask H W (d # ds) y x = (covers H W d y x \<or> fill_mask H W ds y x)"

fun first_error :: "detection list \<Rightarrow> error option" where
  "first_error [] = None"
| "first_error (d # ds) = (case box_error d of Some e \<Rightarrow> Some e | None \<Rightarrow> first_error ds)"

section \<open>Blur kernel\<close>

lemma kernel_size_formula: "kernel_size x0 x1 = max 15 (2 * ((x1 - x0) div 10 div 2) + 1)"
  unfolding kernel_size_def by (cases "1 \<le> (x1 - x0) div 10") auto

lemma kernel_size_odd: "odd (kernel_size x0 x1)"
  unfolding kernel_size_def max_def by simp

lemma kernel_size_floor: "15 \<le> kernel_size x0 x1"
  unfolding kernel_size_def by simp

lemma kernel_size_mono:
  assumes "x1 - x0 \<le> x1' - x0'"
  shows "kernel_size x0 x1 \<le> kernel_size x0' x1'"
proof -
  have "(x1 - x0) div 10 \<le> (x1' - x0') div 10"
    using assms by (rule zdiv_mono1) simp
  then have le: "max 1 ((x1 - x0) div 10) div 2 \<le> max 1 ((x1' - x0') div 10) div 2"
    by (intro zdiv_mono1) auto
  define a where "a = max 1 ((x1 - x0) div 10) div 2"
  define b where "b = max 1 ((x1' - x0') div 10) div 2"
  have "a \<le> b" unfolding a_def b_def by (fact le)
  then have "max 15 (a * 2 + 1) \<le> max 15 (b * 2 + 1)" by linarith
  then show ?thesis unfolding kernel_size_def a_def b_def .
qed

lemma kernel_size_small:
  assumes "x1 - x0 \<le> 149"
  shows "kernel_size x0 x1 = 15"
proof -
  have "(x1 - x0) div 10 \<le> 149 div 10" using assms by (rule zdiv_mono1) simp
  then have "max 1 ((x1 - x0) div 10) \<le> 14" by simp
  then have "max 1 ((x1 - x0) div 10) div 2 \<le> 14 div 2" by (rule zdiv_mono1) simp
  then show ?thesis unfolding kernel_size_def by simp
qed

lemma kernel_size_300:
  assumes "300 \<le> x1 - x0" and "x1 - x0 \<le> 319"
  shows "kernel_size x0 x1 = 31"
proof -
  have "300 div 10 \<le> (x1 - x0) div 10" using assms(1) by (rule zdiv_mono1) simp
  moreover have "(x1 - x0) div 10 \<le> 319 div 10" using assms(2) by (rule zdiv_mono1) simp
  ultimately have "(x1 - x0) div 10 = 30 \<or> (x1 - x0) div 10 = 31" by simp linarith
  then show ?thesis unfolding kernel_size_def by auto
qed

lemma pad3_300: "pad3 300 = 9"
  by (simp add: pad3_def)

lemma pad3_50: "pad3 50 = 1"
  by (simp add: pad3_def)

lemma kernel_width_300:
  "0 \<le> x \<Longrightarrow> x + 309 \<le> int W \<Longrightarrow>
   (case expand_clamp H W x y 300 h of (x0, y0, x1, y1) \<Rightarrow> kernel_size x0 x1) = 31"
  unfolding expand_clamp_def by (simp add: pad3_300 kernel_size_300)

lemma kernel_width_50:
  "(case expand_clamp H W x y 50 h of (x0, y0, x1, y1) \<Rightarrow> kernel_size x0 x1) = 15"
  unfolding expand_clamp_def by (simp add: pad3_50 kernel_size_small)

text \<open>
  C7. In blur mode the kernel passed to the Gaussian blur (\<open>blur_region\<close> calls it with
  \<open>kernel_size x0 x1\<close>) is \<open>max(15, odd(width div 10))\<close> of the width \<open>x1 - x0\<close> of the
  expanded, clamped rectangle, where \<open>odd(n) = 2 (n div 2) + 1\<close>; it is odd, at least
  15, and grows with the width. A box of width 300 at \<open>x \<ge> 0\<close> in an image at least
  \<open>x + 309\<close> wide gets the kernel 31; a box of width 50 gets 15 in every image.
\<close>

theorem blur_kernel_sizing:
  "kernel_size x0 x1 = max 15 (2 * ((x1 - x0) div 10 div 2) + 1)
   \<and> odd (kernel_size x0 x1)
   \<and> 15 \<le> kernel_size x0 x1
   \<and> (x1 - x0 \<le> x1' - x0' \<longrightarrow> kernel_size x0 x1 \<le> kernel_size x0' x1')
   \<and> (0 \<le> x \<and> x + 309 \<le> int W \<longrightarrow>
        (case expand_clamp H W x y 300 h of (a, b, c, d) \<Rightarrow> kernel_size a c) = 31)
   \<and> (case expand_clamp H' W' x' y' 50 h' of (a, b, c, d) \<Rightarrow> kernel_size a c) = 15"
  using kernel_size_formula kernel_size_odd kernel_size_floor kernel_size_mono
    kernel_width_300 kernel_width_50
  by blast

theorem blur_kernel_sizing_witness:
  "(52::int) - 0 \<le> 318 - 0 \<and> kernel_size 0 52 \<le> kernel_size 0 318
   \<and> (0::int) \<le> 10 \<and> (10::int) + 309 \<le> int 400
   \<and> (case expand_clamp 100 400 10 10 300 20 of (a, b, c, d) \<Rightarrow> kernel_size a c) = 31
   \<and> (case expand_clamp 100 400 10 10 50 20 of (a, b, c, d) \<Rightarrow> kernel_size a c) = 15"
  using blur_kernel_sizing [of 0 52 318 0 10 400 100 10 20 100 400 10 10 20]
  by simp

section \<open>Writing pixels\<close>

lemma length_imap [simp]: "length (imap f xs) = length xs"
  by (simp add: imap_def)

lemma nth_imap [simp]: "i < length xs \<Longrightarrow> imap f xs ! i = f i (xs ! i)"
  by (simp add: imap_def nth_enumerate_eq)

lemma imap_imap: "imap f (imap g xs) = imap (\<lambda>i x. f i (g i x)) xs"
  by (rule nth_equalityI) simp_all

lemma imap_cong: "(\<And>i. i < length xs \<Longrightarrow> f i (xs ! i) = g i (xs ! i)) \<Longrightarrow> imap f xs = imap g xs"
  by (rule nth_equalityI) simp_all

lemma imap_id: "(\<And>i. i < length xs \<Longrightarrow> f i (xs ! i) = xs ! i) \<Longrightarrow> imap f xs = xs"
  by (rule nth_equalityI) simp_all

lemma length_write_pixels [simp]: "length (write_pixels sel v img) = length img"
  by (simp add: write_pixels_def)

lemma length_row_write_pixels [simp]:
  "y < length img \<Longrightarrow> length (write_pixels sel v img ! y) = length (img ! y)"
  by (simp add: write_pixels_def)

lemma nth_write_pixels:
  "y < length img \<Longrightarrow> x < length (img ! y) \<Longrightarrow>
   write_pixels sel v img ! y ! x = (if sel y x then v y x else img ! y ! x)"
  by (simp add: write_pixels_def)

lemma img_W_eq: "img_W img = (if img = [] then 0 else length (img ! 0))"
  by (cases img) (simp_all add: img_W_def)

lemma img_W_write_pixels [simp]: "img_W (write_pixels sel v img) = img_W img"
proof (cases "img = []")
  case True
  then show ?thesis by (simp add: write_pixels_def imap_def img_W_def)
next
  case False
  then have "0 < length img" by simp
  then have "length (write_pixels sel v img ! 0) = length (img ! 0)" by (rule length_row_write_pixels)
  moreover have "write_pixels sel v img \<noteq> []" using False by (metis length_write_pixels length_0_conv)
  ultimately show ?thesis using False by (simp add: img_W_eq)
qed

lemma write_pixels_none: "write_pixels (\<lambda>y x. False) v img = img"
  unfolding write_pixels_def by (simp add: imap_id)

lemma write_pixels_twice:
  "write_pixels s2 (\<lambda>y x. c) (write_pixels s1 (\<lambda>y x. c) img) =
   write_pixels (\<lambda>y x. s1 y x \<or> s2 y x) (\<lambda>y x. c) img"
  unfolding write_pixels_def imap_imap
  by (intro imap_cong) auto

lemma redact_one_black:
  "redact_one G ''black'' H W det out =
     (case box_error det of
        Some e \<Rightarrow> Inl e
      | None \<Rightarrow> Inr (write_pixels (covers H W det) (\<lambda>y x. black) out))"
  unfolding redact_one_def box_error_def covers_def skipped_def corners_def cv2_rectangle_def
  by (auto simp: Let_def write_pixels_none split: prod.splits)

lemma redact_loop_black:
  "redact_loop G ''black'' H W dets out =
     (case first_error dets of
        Some e \<Rightarrow> Inl e
      | None \<Rightarrow> Inr (write_pixels (fill_mask H W dets) (\<lambda>y x. black) out))"
proof (induction dets arbitrary: out)
  case Nil
  have "fill_mask H W [] = (\<lambda>y x. False)" by (intro ext) simp
  then show ?case by (simp add: write_pixels_none)
next
  case (Cons d ds)
  show ?case
  proof (cases "box_error d")
    case (Some e)
    then show ?thesis by (simp add: redact_one_black)
  next
    case None
    have m: "(\<lambda>y x. covers H W d y x \<or> fill_mask H W ds y x) = fill_mask H W (d # ds)"
      by (intro ext) simp
    show ?thesis
      using None by (simp add: redact_one_black Cons.IH write_pixels_twice m split: option.splits)
  qed
qed


end
